theory Spec2Isabelle
  imports Main "HOL-Library.Sublist"
begin

section \<open>Strings\<close>

text \<open>
  Python strings are modelled as \<^typ>\<open>string\<close>. The methods the two scripts call are
  written out on ASCII: \<open>lower\<close> and \<open>title\<close> change the 26 ASCII letters only and
  \<open>strip\<close> removes ASCII white space. Every marker the scripts search for is made of
  ASCII lower-case letters, spaces and hyphens.
\<close>

definition ascii_uppercase :: string where
  "ascii_uppercase = ''ABCDEFGHIJKLMNOPQRSTUVWXYZ''"

definition ascii_lowercase :: string where
  "ascii_lowercase = ''abcdefghijklmnopqrstuvwxyz''"

definition lower_char :: "char \<Rightarrow> char" where
  "lower_char c =
     (case map_of (zip ascii_uppercase ascii_lowercase) c of Some d \<Rightarrow> d | None \<Rightarrow> c)"

definition upper_char :: "char \<Rightarrow> char" where
  "upper_char c =
     (case map_of (zip ascii_lowercase ascii_uppercase) c of Some d \<Rightarrow> d | None \<Rightarrow> c)"

definition is_cased :: "char \<Rightarrow> bool" where
  "is_cased c = (c \<in> set ascii_uppercase \<or> c \<in> set ascii_lowercase)"

text \<open>\<open>s.lower()\<close>\<close>

definition lower :: "string \<Rightarrow> string" where
  "lower s = map lower_char s"

text \<open>\<open>sub in s\<close> on strings: \<open>sub\<close> occurs in \<open>s\<close> as a contiguous block.\<close>

fun contains :: "string \<Rightarrow> string \<Rightarrow> bool" where
  "contains sub [] = (sub = [])"
| "contains sub (c # cs) = (prefix sub (c # cs) \<or> contains sub cs)"

text \<open>\<open>s.startswith(p)\<close>\<close>

definition startswith :: "string \<Rightarrow> string \<Rightarrow> bool" where
  "startswith s p = prefix p s"

text \<open>\<open>s.count(c)\<close> for a one-character \<open>c\<close>\<close>

definition count :: "string \<Rightarrow> char \<Rightarrow> nat" where
  "count s c = length (filter (\<lambda>x. x = c) s)"

text \<open>\<open>s.rstrip(c)\<close> for a one-character \<open>c\<close>\<close>

definition rstrip :: "string \<Rightarrow> char \<Rightarrow> string" where
  "rstrip s c = rev (dropWhile (\<lambda>x. x = c) (rev s))"

text \<open>\<open>s.split(c)\<close>: the pieces between the separators, empty ones included; never
  the empty list.\<close>

fun split :: "string \<Rightarrow> char \<Rightarrow> string list" where
  "split [] sep = [[]]"
| "split (c # cs) sep =
     (if c = sep then [] # split cs sep
      else (case split cs sep of p # ps \<Rightarrow> (c # p) # ps | [] \<Rightarrow> [[c]]))"

text \<open>\<open>s.replace(a, b)\<close> for one-character \<open>a\<close> and \<open>b\<close>\<close>

definition replace :: "string \<Rightarrow> char \<Rightarrow> char \<Rightarrow> string" where
  "replace s a b = map (\<lambda>c. if c = a then b else c) s"

text \<open>\<open>s.title()\<close>: a cased character is upper-cased when the character before it is
  not cased, and lower-cased otherwise; the flag is \<open>previous_is_cased\<close>.\<close>

fun title_from :: "bool \<Rightarrow> string \<Rightarrow> string" where
  "title_from previous_is_cased [] = []"
| "title_from previous_is_cased (c # cs) =
     (if is_cased c
      then (if previous_is_cased then lower_char c else upper_char c) # title_from True cs
      else c # title_from False cs)"

definition title :: "string \<Rightarrow> string" where
  "title s = title_from False s"

text \<open>\<open>s.strip()\<close>\<close>

definition whitespace :: string where
  "whitespace = [CHR 0x09, CHR 0x0A, CHR 0x0B, CHR 0x0C, CHR 0x0D,
                 CHR 0x1C, CHR 0x1D, CHR 0x1E, CHR 0x1F, CHR 0x20]"

definition isspace :: "char \<Rightarrow> bool" where
  "isspace c = (c \<in> set whitespace)"

definition strip :: "string \<Rightarrow> string" where
  "strip s = rev (dropWhile isspace (rev (dropWhile isspace s)))"

text \<open>\<open>sep.join(xs)\<close>\<close>

fun join :: "string \<Rightarrow> string list \<Rightarrow> string" where
  "join sep [] = []"
| "join sep [x] = x"
| "join sep (x # y # ys) = x @ sep @ join sep (y # ys)"


section \<open>Pages, responses and the trace of effects\<close>

text \<open>
  A parsed page (\<open>BeautifulSoup(response.content, 'html.parser')\<close>) is the list of its
  elements in document order. Of an element the scripts read the tag name, the class
  attribute (a list of class names; empty when the attribute is missing), the \<open>href\<close>
  attribute and the text content.
\<close>

record element =
  tag :: string
  classes :: "string list"
  href :: "string option"
  get_text :: string

type_synonym soup = "element list"

datatype exception = FileNotFoundError | HTTPError int | Exception string

text \<open>The result of \<open>requests.get\<close>: the status code, and what parsing the body gives.\<close>

record response =
  status_code :: int
  html :: "exception + soup"

text \<open>The network: what \<open>requests.get(url, headers=HEADERS, timeout=10)\<close> returns or raises.\<close>

type_synonym web = "string \<Rightarrow> exception + response"

record country_link =
  country :: string
  url :: string

record advisory_record = country_link +
  advisory_level :: "int option"
  country_standardized :: string

record labelled_record = advisory_record +
  advisory_label :: "string option"

datatype message =
    Banner
  | FetchingCountryList
  | ErrorFetchingCountryList exception
  | ManualMethod
  | UnableToScrapeCountryList
  | FoundCountries nat
  | ScrapingAdvisoryLevels
  | Progress string
  | Level int
  | UnableToDetermine
  | Error exception
  | SuccessfullyScraped nat
  | CsvNotFound
  | LoadedData nat
  | MapSavedAsPng
  | CouldNotSavePng exception
  | PngRequiresKaleido
  | InteractiveMapSaved

text \<open>What a run does to the outside, in order: the trace.\<close>

datatype event =
    Print message
  | Get string
  | ToCsv "labelled_record list"
  | ReadCsv
  | Show
  | WriteImage
  | WriteHtml

text \<open>\<open>response.raise_for_status()\<close>\<close>

definition raise_for_status :: "response \<Rightarrow> exception + unit" where
  "raise_for_status r =
     (if 400 \<le> status_code r \<and> status_code r < 600 then Inl (HTTPError (status_code r))
      else Inr ())"

text \<open>The first three statements of both \<open>try\<close> blocks of \<open>scrape_advisories.py\<close>:
  request, status check, parse. The first exception ends them.\<close>

definition fetch :: "web \<Rightarrow> string \<Rightarrow> exception + soup" where
  "fetch w u =
     (case w u of
        Inl e \<Rightarrow> Inl e
      | Inr r \<Rightarrow> (case raise_for_status r of Inl e \<Rightarrow> Inl e | Inr _ \<Rightarrow> html r))"

text \<open>\<open>soup.find(name, class_=cls)\<close>: the first element with that tag name that has
  \<open>cls\<close> among its classes.\<close>

definition find_tag :: "soup \<Rightarrow> string \<Rightarrow> string \<Rightarrow> element option" where
  "find_tag sp nm cls = List.find (\<lambda>e. tag e = nm \<and> cls \<in> set (classes e)) sp"

text \<open>\<open>[link['href'] for link in soup.find_all('a', href=True)]\<close>\<close>

definition find_all_a_href :: "soup \<Rightarrow> string list" where
  "find_all_a_href sp = List.map_filter (\<lambda>e. if tag e = ''a'' then href e else None) sp"


section \<open>scrape\_advisories.py\<close>

subsection \<open>get\_country\_urls\<close>

definition base_url :: string where
  "base_url = ''https://www.ireland.ie/en/dfa/overseas-travel/advice/''"

definition exclusion_keywords :: "string list" where
  "exclusion_keywords = [''covid'', ''index'', ''search'', ''about'']"

text \<open>Lines 42 to 49: the entry appended for a kept anchor.\<close>

definition country_link_of :: "string \<Rightarrow> country_link" where
  "country_link_of hr =
     (let full_url = (if startswith hr ''http'' then hr else ''https://www.ireland.ie'' @ hr);
          country_slug = last (split (rstrip hr CHR ''/'') CHR ''/'');
          country_name = title (replace country_slug CHR ''-'' CHR '' '')
      in \<lparr>country = country_name, url = full_url\<rparr>)"

text \<open>Lines 36 to 49: the loop over the anchors, \<open>country_links\<close> being the list built
  so far.\<close>

fun collect_links :: "string list \<Rightarrow> country_link list \<Rightarrow> country_link list" where
  "collect_links [] country_links = country_links"
| "collect_links (hr # hrs) country_links =
     (if contains ''/advice/'' hr \<and> count hr CHR ''/'' \<ge> 5
      then (if \<not> list_ex (\<lambda>x. contains x (lower hr)) exclusion_keywords
            then collect_links hrs (country_links @ [country_link_of hr])
            else collect_links hrs country_links)
      else collect_links hrs country_links)"

text \<open>\<open>DataFrame.drop_duplicates()\<close>: of equal rows the first one stays.\<close>

fun drop_duplicates :: "'a list \<Rightarrow> 'a list \<Rightarrow> 'a list" where
  "drop_duplicates seen [] = []"
| "drop_duplicates seen (x # xs) =
     (if x \<in> set seen then drop_duplicates seen xs else x # drop_duplicates (x # seen) xs)"

text \<open>The result is \<open>None\<close> or the data frame, here the list of its rows.\<close>

definition get_country_urls :: "web \<Rightarrow> country_link list option \<times> event list" where
  "get_country_urls w =
     (case fetch w base_url of
        Inr sp \<Rightarrow>
          (Some (drop_duplicates [] (collect_links (find_all_a_href sp) [])), [Get base_url])
      | Inl e \<Rightarrow>
          (None, [Get base_url, Print (ErrorFetchingCountryList e), Print ManualMethod]))"

subsection \<open>get\_advisory\_level\<close>

text \<open>Lines 99 to 106; \<open>None\<close> when no branch returns.\<close>

definition class_level :: "string \<Rightarrow> int option" where
  "class_level classes_str =
     (if contains ''do-not-travel'' classes_str then Some 4
      else if contains ''avoid-non-essential-travel'' classes_str
              \<or> contains ''avoid-unnecessary-travel'' classes_str then Some 3
      else if contains ''high-degree-of-caution'' classes_str
              \<or> contains ''high-degree-caution'' classes_str then Some 2
      else if contains ''normal-precautions'' classes_str then Some 1
      else None)"

text \<open>Lines 113 to 120; \<open>None\<close> when no branch returns.\<close>

definition title_level :: "string \<Rightarrow> int option" where
  "title_level title_text =
     (if contains ''do not travel'' title_text then Some 4
      else if contains ''avoid non-essential travel'' title_text
              \<or> contains ''avoid unnecessary travel'' title_text then Some 3
      else if contains ''high degree of caution'' title_text then Some 2
      else if contains ''normal precautions'' title_text then Some 1
      else None)"

text \<open>Lines 108 to 122: the fallback on the \<open>h3\<close> title.\<close>

definition title_fallback :: "soup \<Rightarrow> int option" where
  "title_fallback sp =
     (case find_tag sp ''h3'' ''accordion__title'' of
        Some accordion_title \<Rightarrow> title_level (lower (strip (get_text accordion_title)))
      | None \<Rightarrow> None)"

text \<open>Lines 92 to 122: a page whose container gives no level falls through to the
  fallback, as a page without container does.\<close>

definition extract_level :: "soup \<Rightarrow> int option" where
  "extract_level sp =
     (case find_tag sp ''div'' ''accordion_travel'' of
        Some advisory_div \<Rightarrow>
          (case class_level (lower (join '' '' (classes advisory_div))) of
             Some l \<Rightarrow> Some l
           | None \<Rightarrow> title_fallback sp)
      | None \<Rightarrow> title_fallback sp)"

definition get_advisory_level :: "web \<Rightarrow> string \<Rightarrow> int option \<times> event list" where
  "get_advisory_level w u =
     (case fetch w u of
        Inr sp \<Rightarrow> (extract_level sp, [Get u])
      | Inl e \<Rightarrow> (None, [Get u, Print (Error e)]))"

subsection \<open>standardize\_country\_name\<close>

definition mapping :: "(string \<times> string) list" where
  "mapping =
    [(''Usa'', ''United States''),
     (''United States Of America'', ''United States''),
     (''Uk'', ''United Kingdom''),
     (''Uae'', ''United Arab Emirates''),
     (''Democratic Republic Of The Congo'', ''Democratic Republic of the Congo''),
     (''Drc'', ''Democratic Republic of the Congo''),
     (''Congo'', ''Republic of the Congo''),
     (''North Korea'', ''North Korea''),
     (''Dpr Korea'', ''North Korea''),
     (''South Korea'', ''South Korea''),
     (''Republic Of Korea'', ''South Korea''),
     (''Czech Republic'', ''Czechia''),
     (''Cote D'' @ [CHR 0x27] @ ''ivoire'', ''C'' @ [CHR 0xC3, CHR 0xB4] @ ''te d'' @ [CHR 0x27] @ ''Ivoire''),
     (''Ivory Coast'', ''C'' @ [CHR 0xC3, CHR 0xB4] @ ''te d'' @ [CHR 0x27] @ ''Ivoire''),
     (''Burma'', ''Myanmar''),
     (''Cape Verde'', ''Cabo Verde''),
     (''East Timor'', ''Timor-Leste''),
     (''Laos'', ''Lao PDR''),
     (''Macedonia'', ''North Macedonia''),
     (''Swaziland'', ''Eswatini''),
     (''The Bahamas'', ''Bahamas''),
     (''The Gambia'', ''Gambia'')]"

text \<open>\<open>mapping.get(country, country)\<close>\<close>

definition standardize_country_name :: "string \<Rightarrow> string" where
  "standardize_country_name c = (case map_of mapping c of Some v \<Rightarrow> v | None \<Rightarrow> c)"

subsection \<open>main\<close>

text \<open>Lines 180 to 189: one pass per row of the listing, its level appended to
  \<open>advisory_levels\<close>.\<close>

fun scrape_levels :: "web \<Rightarrow> country_link list \<Rightarrow> int option list \<times> event list" where
  "scrape_levels w [] = ([], [])"
| "scrape_levels w (row # rows) =
     (let (level, evs) = get_advisory_level w (url row);
          said = (case level of
                    Some l \<Rightarrow> if l \<noteq> 0 then Level l else UnableToDetermine
                  | None \<Rightarrow> UnableToDetermine);
          (advisory_levels, rest) = scrape_levels w rows
      in (level # advisory_levels, Print (Progress (country row)) # evs @ Print said # rest))"

definition level_labels :: "int \<rightharpoonup> string" where
  "level_labels =
     [1 \<mapsto> ''Normal Precautions'',
      2 \<mapsto> ''High Degree of Caution'',
      3 \<mapsto> ''Avoid Unnecessary Travel'',
      4 \<mapsto> ''Do Not Travel'']"

text \<open>Lines 192 and 193: the two new columns.\<close>

definition add_columns :: "country_link \<Rightarrow> int option \<Rightarrow> advisory_record" where
  "add_columns row level =
     \<lparr>country = country row, url = url row, advisory_level = level,
      country_standardized = standardize_country_name (country row)\<rparr>"

text \<open>Line 205: \<open>Series.map\<close> with a dictionary, a level that is no key giving no label.\<close>

definition add_label :: "advisory_record \<Rightarrow> labelled_record" where
  "add_label r =
     \<lparr>country = country r, url = url r, advisory_level = advisory_level r,
      country_standardized = country_standardized r,
      advisory_label = (case advisory_level r of Some l \<Rightarrow> level_labels l | None \<Rightarrow> None)\<rparr>"

text \<open>Lines 192 to 208: from the listing and the levels to the rows written.\<close>

definition assemble :: "country_link list \<Rightarrow> int option list \<Rightarrow> labelled_record list" where
  "assemble countries_df advisory_levels =
     (let df = map2 add_columns countries_df advisory_levels;
          countries_with_data = filter (\<lambda>r. advisory_level r \<noteq> None) df
      in map add_label countries_with_data)"

definition main :: "web \<Rightarrow> event list" where
  "main w =
     (let (countries_df, evs1) = get_country_urls w;
          start = [Print Banner, Print FetchingCountryList] @ evs1
      in case countries_df of
           None \<Rightarrow> start @ [Print UnableToScrapeCountryList]
         | Some rows \<Rightarrow>
             if length rows = 0 then start @ [Print UnableToScrapeCountryList]
             else
               (let (advisory_levels, evs2) = scrape_levels w rows;
                    countries_with_data = assemble rows advisory_levels
                in start @ [Print (FoundCountries (length rows)), Print ScrapingAdvisoryLevels]
                   @ evs2
                   @ [ToCsv countries_with_data,
                      Print (SuccessfullyScraped (length countries_with_data))]))"


section \<open>create\_map.py\<close>

text \<open>
  The outside of \<open>create_map\<close>: what reading the CSV file gives, what building and
  showing the figure (lines 22 to 86) gives for the data read, and what the two exports
  give for the figure. An exception that no handler catches ends the run and is its
  result.
\<close>

record ('df, 'fig) renderer =
  read_csv :: "exception + 'df list"
  build_and_show :: "'df list \<Rightarrow> exception + 'fig"
  write_image :: "'fig \<Rightarrow> exception + unit"
  write_html :: "'fig \<Rightarrow> exception + unit"

text \<open>Lines 88 to 99, the figure at hand.\<close>

definition export :: "('df, 'fig) renderer \<Rightarrow> 'fig \<Rightarrow> (exception + unit) \<times> event list" where
  "export env fig =
     (let png = (case write_image env fig of
                   Inr _ \<Rightarrow> [WriteImage, Print MapSavedAsPng]
                 | Inl e \<Rightarrow> [WriteImage, Print (CouldNotSavePng e), Print PngRequiresKaleido])
      in case write_html env fig of
           Inr _ \<Rightarrow> (Inr (), png @ [WriteHtml, Print InteractiveMapSaved])
         | Inl e \<Rightarrow> (Inl e, png @ [WriteHtml]))"

definition create_map :: "('df, 'fig) renderer \<Rightarrow> (exception + unit) \<times> event list" where
  "create_map env =
     (case read_csv env of
        Inl FileNotFoundError \<Rightarrow> (Inr (), [ReadCsv, Print CsvNotFound])
      | Inl e \<Rightarrow> (Inl e, [ReadCsv])
      | Inr df \<Rightarrow>
          (case build_and_show env df of
             Inl e \<Rightarrow> (Inl e, [ReadCsv, Print (LoadedData (length df))])
           | Inr fig \<Rightarrow>
               (let (res, evs) = export env fig
                in (res, [ReadCsv, Print (LoadedData (length df)), Show] @ evs))))"


section \<open>The claims' vocabulary and example pages\<close>

text \<open>The markers of each step as a table in priority order, and the rule that the first
  row with a marker in the string gives the level.\<close>

definition class_markers :: "(int \<times> string list) list" where
  "class_markers =
     [(4, [''do-not-travel'']),
      (3, [''avoid-non-essential-travel'', ''avoid-unnecessary-travel'']),
      (2, [''high-degree-of-caution'', ''high-degree-caution'']),
      (1, [''normal-precautions''])]"

definition title_markers :: "(int \<times> string list) list" where
  "title_markers =
     [(4, [''do not travel'']),
      (3, [''avoid non-essential travel'', ''avoid unnecessary travel'']),
      (2, [''high degree of caution'']),
      (1, [''normal precautions''])]"

fun first_match :: "(int \<times> string list) list \<Rightarrow> string \<Rightarrow> int option" where
  "first_match [] s = None"
| "first_match ((l, ms) # rest) s =
     (if list_ex (\<lambda>m. contains m s) ms then Some l else first_match rest s)"

text \<open>The path segments of an href: the non-empty pieces between its slashes.\<close>

definition path_segments :: "string \<Rightarrow> string list" where
  "path_segments hr = filter (\<lambda>p. p \<noteq> []) (split hr CHR ''/'')"

text \<open>A network that answers every request with status 200 and the same page; an
  element of each kind the scraper looks for.\<close>

definition serving :: "soup \<Rightarrow> web" where
  "serving sp = (\<lambda>u. Inr \<lparr>status_code = 200, html = Inr sp\<rparr>)"

definition div_of :: "string list \<Rightarrow> element" where
  "div_of cs = \<lparr>tag = ''div'', classes = cs, href = None, get_text = []\<rparr>"

definition h3_of :: "string \<Rightarrow> element" where
  "h3_of t = \<lparr>tag = ''h3'', classes = [''accordion__title''], href = None, get_text = t\<rparr>"

definition a_of :: "string \<Rightarrow> element" where
  "a_of hr = \<lparr>tag = ''a'', classes = [], href = Some hr, get_text = []\<rparr>"

text \<open>A network on which every request raises; one on which the request for one address
  raises and every other one is answered with the same page.\<close>

definition failing :: "exception \<Rightarrow> web" where
  "failing e = (\<lambda>u. Inl e)"

definition serving_except :: "string \<Rightarrow> exception \<Rightarrow> soup \<Rightarrow> web" where
  "serving_except bad e sp =
     (\<lambda>u. if u = bad then Inl e else Inr \<lparr>status_code = 200, html = Inr sp\<rparr>)"


section \<open>Substrings, lower-casing and stripping\<close>

lemma contains_iff: "contains sub s \<longleftrightarrow> (\<exists>pre post. s = pre @ sub @ post)"
proof (induction s)
  case Nil
  show ?case by auto
next
  case (Cons c cs)
  show ?case
  proof
    assume "contains sub (c # cs)"
    then consider "prefix sub (c # cs)" | "contains sub cs" by auto
    then show "\<exists>pre post. c # cs = pre @ sub @ post"
    proof cases
      case 1
      then obtain post where "c # cs = sub @ post" by (auto simp: prefix_def)
      then have "c # cs = [] @ sub @ post" by simp
      then show ?thesis by blast
    next
      case 2
      with Cons obtain pre post where "cs = pre @ sub @ post" by auto
      then have "c # cs = (c # pre) @ sub @ post" by simp
      then show ?thesis by blast
    qed
  next
    assume "\<exists>pre post. c # cs = pre @ sub @ post"
    then obtain pre post where eq: "c # cs = pre @ sub @ post" by auto
    show "contains sub (c # cs)"
    proof (cases pre)
      case Nil
      with eq have "prefix sub (c # cs)" by (metis append_Nil prefixI)
      then show ?thesis by simp
    next
      case (Cons p ps)
      with eq have "cs = ps @ sub @ post" by simp
      with Cons.IH show ?thesis by auto
    qed
  qed
qed

lemma lower_append: "lower (xs @ ys) = lower xs @ lower ys"
  by (simp add: lower_def)

lemma isspace_lower_char: "isspace (lower_char c) = isspace c"
  unfolding isspace_def whitespace_def lower_char_def ascii_uppercase_def ascii_lowercase_def
  by (simp split: option.splits if_splits)

lemma lower_strip: "lower (strip s) = strip (lower s)"
proof -
  have dw: "\<And>xs. dropWhile isspace (map lower_char xs) = map lower_char (dropWhile isspace xs)"
    by (simp add: dropWhile_map comp_def isspace_lower_char)
  show ?thesis
    by (simp add: lower_def strip_def dw rev_map)
qed

lemma contains_dropWhile:
  assumes "m \<noteq> []" "\<not> P (hd m)"
  shows "contains m (dropWhile P s) = contains m s"
proof (induction s)
  case Nil
  show ?case by simp
next
  case (Cons c cs)
  show ?case
  proof (cases "P c")
    case True
    with assms have "\<not> prefix m (c # cs)"
      by (cases m) auto
    with True Cons show ?thesis by simp
  next
    case False
    then show ?thesis by simp
  qed
qed

lemma contains_rev: "contains (rev m) (rev s) = contains m s"
proof -
  have "(\<exists>pre post. rev s = pre @ rev m @ post) \<longleftrightarrow> (\<exists>pre post. s = pre @ m @ post)"
  proof
    assume "\<exists>pre post. rev s = pre @ rev m @ post"
    then obtain pre post where "rev s = pre @ rev m @ post" by auto
    then have "rev (rev s) = rev (pre @ rev m @ post)" by simp
    then have "s = rev post @ m @ rev pre" by simp
    then show "\<exists>pre post. s = pre @ m @ post" by blast
  next
    assume "\<exists>pre post. s = pre @ m @ post"
    then obtain pre post where "s = pre @ m @ post" by auto
    then have "rev s = rev post @ rev m @ rev pre" by simp
    then show "\<exists>pre post. rev s = pre @ rev m @ post" by blast
  qed
  then show ?thesis by (simp add: contains_iff)
qed

lemma contains_strip:
  assumes "m \<noteq> []" "\<not> isspace (hd m)" "\<not> isspace (last m)"
  shows "contains m (strip s) = contains m s"
proof -
  have r: "rev m \<noteq> []" "\<not> isspace (hd (rev m))"
    using assms by (simp_all add: hd_rev)
  have "contains m (strip s) = contains (rev m) (rev (strip s))"
    by (rule contains_rev [symmetric])
  also have "\<dots> = contains (rev m) (dropWhile isspace (rev (dropWhile isspace s)))"
    by (simp add: strip_def)
  also have "\<dots> = contains (rev m) (rev (dropWhile isspace s))"
    using r by (rule contains_dropWhile [where P = isspace])
  also have "\<dots> = contains m (dropWhile isspace s)"
    by (rule contains_rev)
  also have "\<dots> = contains m s"
    using assms(1,2) by (rule contains_dropWhile [where P = isspace])
  finally show ?thesis .
qed

lemma contains_lower_strip:
  assumes "t = pre @ mid @ post" "lower mid = m" "m \<noteq> []" "\<not> isspace (hd m)" "\<not> isspace (last m)"
  shows "contains m (lower (strip t))"
proof -
  have "lower t = lower pre @ m @ lower post"
    using assms(1,2) by (simp add: lower_append)
  then have "contains m (lower t)"
    unfolding contains_iff by blast
  then show ?thesis
    by (simp add: lower_strip contains_strip [OF assms(3-5)])
qed


section \<open>The advisory extractor\<close>

lemmas eval_defs = get_advisory_level_def fetch_def raise_for_status_def extract_level_def
  title_fallback_def find_tag_def class_level_def title_level_def serving_def div_of_def h3_of_def
  lower_def lower_char_def ascii_uppercase_def ascii_lowercase_def strip_def isspace_def whitespace_def

lemma fetch_serving: "fetch (serving sp) u = Inr sp"
  by (simp add: fetch_def serving_def raise_for_status_def)

lemma level_fetched: "fetch w u = Inr sp \<Longrightarrow> fst (get_advisory_level w u) = extract_level sp"
  by (simp add: get_advisory_level_def)

lemma do_not_travel_class:
  assumes "s = pre @ mid @ post" "lower mid = ''do-not-travel''"
  shows "class_level (lower s) = Some 4"
proof -
  have "lower s = lower pre @ ''do-not-travel'' @ lower post"
    using assms by (simp add: lower_append)
  then have "contains ''do-not-travel'' (lower s)"
    unfolding contains_iff by blast
  then show ?thesis by (simp add: class_level_def)
qed

lemma do_not_travel_title:
  assumes "t = pre @ mid @ post" "lower mid = ''do not travel''"
  shows "title_level (lower (strip t)) = Some 4"
proof -
  have "contains ''do not travel'' (lower (strip t))"
    by (rule contains_lower_strip [OF assms]) (simp_all add: isspace_def whitespace_def)
  then show ?thesis by (simp add: title_level_def)
qed

text \<open>
  C1 (as amended). When the container is found and its class string contains
  \<open>do-not-travel\<close> in any letter case, the level is 4. When the class step gives no level
  (no container, or a container whose class string has none of the class markers) and the
  \<open>h3\<close> title is found with \<open>do not travel\<close> in its text in any letter case, the level
  is 4.
\<close>

theorem do_not_travel_level_4:
  assumes "fetch w u = Inr sp"
    and "(find_tag sp ''div'' ''accordion_travel'' = Some d
          \<and> join '' '' (classes d) = pre @ mid @ post \<and> lower mid = ''do-not-travel'')
       \<or> ((find_tag sp ''div'' ''accordion_travel'' = None
             \<or> (find_tag sp ''div'' ''accordion_travel'' = Some d
                 \<and> class_level (lower (join '' '' (classes d))) = None))
          \<and> find_tag sp ''h3'' ''accordion__title'' = Some h
          \<and> get_text h = pre @ mid @ post \<and> lower mid = ''do not travel'')"
  shows "fst (get_advisory_level w u) = Some 4"
proof -
  have "extract_level sp = Some 4"
    using assms(2)
  proof (elim disjE conjE)
    assume "find_tag sp ''div'' ''accordion_travel'' = Some d"
      "join '' '' (classes d) = pre @ mid @ post" "lower mid = ''do-not-travel''"
    then show ?thesis
      by (simp add: extract_level_def do_not_travel_class)
  next
    assume "find_tag sp ''div'' ''accordion_travel'' = None"
      "find_tag sp ''h3'' ''accordion__title'' = Some h"
      "get_text h = pre @ mid @ post" "lower mid = ''do not travel''"
    then show ?thesis
      by (simp add: extract_level_def title_fallback_def do_not_travel_title)
  next
    assume "find_tag sp ''div'' ''accordion_travel'' = Some d"
      "class_level (lower (join '' '' (classes d))) = None"
      "find_tag sp ''h3'' ''accordion__title'' = Some h"
      "get_text h = pre @ mid @ post" "lower mid = ''do not travel''"
    then show ?thesis
      by (simp add: extract_level_def title_fallback_def do_not_travel_title)
  qed
  with assms(1) show ?thesis by (simp add: level_fetched)
qed

theorem do_not_travel_level_4_witness:
  "fst (get_advisory_level
          (serving [div_of [''accordion_travel'', ''Do-Not-Travel'', ''accordion'', ''is-open'']])
          ''https://www.ireland.ie/en/dfa/overseas-travel/advice/libya/'') = Some 4
   \<and> fst (get_advisory_level
          (serving [div_of [''accordion_travel''], h3_of '' Libya: DO NOT TRAVEL ''])
          ''https://www.ireland.ie/en/dfa/overseas-travel/advice/libya/'') = Some 4"
proof
  let ?d = "div_of [''accordion_travel'', ''Do-Not-Travel'', ''accordion'', ''is-open'']"
  show "fst (get_advisory_level (serving [?d])
          ''https://www.ireland.ie/en/dfa/overseas-travel/advice/libya/'') = Some 4"
  proof (rule do_not_travel_level_4
      [where sp = "[?d]" and d = ?d and pre = "''accordion_travel ''" and mid = "''Do-Not-Travel''"
         and post = "'' accordion is-open''"])
    show "fetch (serving [?d]) ''https://www.ireland.ie/en/dfa/overseas-travel/advice/libya/'' = Inr [?d]"
      by (rule fetch_serving)
  qed (simp add: eval_defs)
next
  let ?d = "div_of [''accordion_travel'']"
  let ?h = "h3_of '' Libya: DO NOT TRAVEL ''"
  show "fst (get_advisory_level (serving [?d, ?h])
          ''https://www.ireland.ie/en/dfa/overseas-travel/advice/libya/'') = Some 4"
  proof (rule do_not_travel_level_4
      [where sp = "[?d, ?h]" and d = ?d and h = ?h and pre = "'' Libya: ''" and mid = "''DO NOT TRAVEL''"
         and post = "'' ''"])
    show "fetch (serving [?d, ?h]) ''https://www.ireland.ie/en/dfa/overseas-travel/advice/libya/'' = Inr [?d, ?h]"
      by (rule fetch_serving)
  qed (simp add: eval_defs)
qed

theorem do_not_travel_counterexample:
  "contains ''do not travel'' (lower (get_text (h3_of ''Do Not Travel'')))
   \<and> fst (get_advisory_level
            (serving [div_of [''accordion_travel'', ''normal-precautions''], h3_of ''Do Not Travel''])
            ''https://www.ireland.ie/en/dfa/overseas-travel/advice/france/'') = Some 1
   \<and> contains ''do not travel'' (lower (join '' '' (classes (div_of [''accordion_travel'', ''Do'', ''Not'', ''Travel'']))))
   \<and> fst (get_advisory_level
            (serving [div_of [''accordion_travel'', ''Do'', ''Not'', ''Travel'']])
            ''https://www.ireland.ie/en/dfa/overseas-travel/advice/libya/'') = None"
  by (simp add: eval_defs)

lemma class_level_first_match: "class_level s = first_match class_markers s"
  by (simp add: class_level_def class_markers_def)

lemma title_level_first_match: "title_level s = first_match title_markers s"
  by (simp add: title_level_def title_markers_def)

text \<open>
  C2 (as amended). The heading step is applied exactly when the class step gives no level:
  when the container is found and its class string has a marker, that marker's level is the
  result, whatever the heading says; when there is no container, or the container's class
  string has no marker, the result is what the heading step gives, which is no level when
  there is no heading or its text has no marker.
\<close>

theorem fallback_when_class_step_fails:
  assumes "fetch w u = Inr sp"
  shows "(find_tag sp ''div'' ''accordion_travel'' = Some d
            \<and> class_level (lower (join '' '' (classes d))) = Some l
          \<longrightarrow> fst (get_advisory_level w u) = Some l)
       \<and> (find_tag sp ''div'' ''accordion_travel'' = None
            \<or> (find_tag sp ''div'' ''accordion_travel'' = Some d
                \<and> class_level (lower (join '' '' (classes d))) = None)
          \<longrightarrow> fst (get_advisory_level w u) =
               (case find_tag sp ''h3'' ''accordion__title'' of
                  Some h \<Rightarrow> title_level (lower (strip (get_text h)))
                | None \<Rightarrow> None))
       \<and> ((find_tag sp ''div'' ''accordion_travel'' = None
             \<or> (find_tag sp ''div'' ''accordion_travel'' = Some d
                 \<and> class_level (lower (join '' '' (classes d))) = None))
            \<and> (find_tag sp ''h3'' ''accordion__title'' = None
                \<or> (find_tag sp ''h3'' ''accordion__title'' = Some h
                    \<and> title_level (lower (strip (get_text h))) = None))
          \<longrightarrow> fst (get_advisory_level w u) = None)"
  using assms by (auto simp: level_fetched extract_level_def title_fallback_def)

theorem fallback_when_class_step_fails_witness:
  "fst (get_advisory_level
          (serving [div_of [''accordion_travel'', ''normal-precautions''], h3_of ''Do Not Travel''])
          ''https://www.ireland.ie/en/dfa/overseas-travel/advice/france/'') = Some 1
   \<and> fst (get_advisory_level
          (serving [div_of [''accordion_travel'', ''accordion''], h3_of ''Avoid non-essential travel''])
          ''https://www.ireland.ie/en/dfa/overseas-travel/advice/mali/'') = Some 3
   \<and> fst (get_advisory_level
          (serving [div_of [''accordion''], div_of [''accordion_travel'']])
          ''https://www.ireland.ie/en/dfa/overseas-travel/advice/mali/'') = None"
proof (intro conjI)
  let ?d = "div_of [''accordion_travel'', ''normal-precautions'']"
  let ?h = "h3_of ''Do Not Travel''"
  have "find_tag [?d, ?h] ''div'' ''accordion_travel'' = Some ?d
      \<and> class_level (lower (join '' '' (classes ?d))) = Some 1"
    by (simp add: eval_defs)
  with fallback_when_class_step_fails [OF fetch_serving, of "[?d, ?h]" ?d 1]
  show "fst (get_advisory_level (serving [?d, ?h])
          ''https://www.ireland.ie/en/dfa/overseas-travel/advice/france/'') = Some 1"
    by blast
next
  let ?d = "div_of [''accordion_travel'', ''accordion'']"
  let ?h = "h3_of ''Avoid non-essential travel''"
  have "find_tag [?d, ?h] ''div'' ''accordion_travel'' = Some ?d
      \<and> class_level (lower (join '' '' (classes ?d))) = None"
    by (simp add: eval_defs)
  moreover have "(case find_tag [?d, ?h] ''h3'' ''accordion__title'' of
                  Some h \<Rightarrow> title_level (lower (strip (get_text h)))
                | None \<Rightarrow> None) = Some 3"
    by (simp add: eval_defs)
  ultimately show "fst (get_advisory_level (serving [?d, ?h])
          ''https://www.ireland.ie/en/dfa/overseas-travel/advice/mali/'') = Some 3"
    using fallback_when_class_step_fails [OF fetch_serving, of "[?d, ?h]" ?d]
    by simp
next
  let ?d = "div_of [''accordion_travel'']"
  let ?sp = "[div_of [''accordion''], ?d]"
  have "find_tag ?sp ''div'' ''accordion_travel'' = Some ?d
      \<and> class_level (lower (join '' '' (classes ?d))) = None"
    by (simp add: eval_defs)
  moreover have "(case find_tag ?sp ''h3'' ''accordion__title'' of
                  Some h \<Rightarrow> title_level (lower (strip (get_text h)))
                | None \<Rightarrow> None) = None"
    by (simp add: eval_defs)
  ultimately show "fst (get_advisory_level (serving ?sp)
          ''https://www.ireland.ie/en/dfa/overseas-travel/advice/mali/'') = None"
    using fallback_when_class_step_fails [OF fetch_serving, of ?sp ?d]
    by simp
qed

theorem fallback_counterexample:
  "find_tag [div_of [''accordion_travel'', ''accordion'', ''is-open''], h3_of ''Do Not Travel'']
     ''div'' ''accordion_travel'' = Some (div_of [''accordion_travel'', ''accordion'', ''is-open''])
   \<and> class_level (lower (join '' '' (classes (div_of [''accordion_travel'', ''accordion'', ''is-open''])))) = None
   \<and> fst (get_advisory_level
            (serving [div_of [''accordion_travel'', ''accordion'', ''is-open''], h3_of ''Do Not Travel''])
            ''https://www.ireland.ie/en/dfa/overseas-travel/advice/libya/'') = Some 4"
  by (simp add: eval_defs)

text \<open>
  C3 (as amended). A container whose class string holds both \<open>high-degree-of-caution\<close> and
  \<open>do-not-travel\<close> gives 4; when the class step gives no level, a heading whose text holds
  both \<open>high degree of caution\<close> and \<open>do not travel\<close> gives 4. In each step the markers are
  tried in the order 4, 3, 2, 1 and the first one found decides.
\<close>

theorem highest_priority_marker_wins:
  assumes "fetch w u = Inr sp"
    and "(find_tag sp ''div'' ''accordion_travel'' = Some d
          \<and> contains ''high-degree-of-caution'' (lower (join '' '' (classes d)))
          \<and> contains ''do-not-travel'' (lower (join '' '' (classes d))))
       \<or> ((find_tag sp ''div'' ''accordion_travel'' = None
             \<or> (find_tag sp ''div'' ''accordion_travel'' = Some d
                 \<and> class_level (lower (join '' '' (classes d))) = None))
          \<and> find_tag sp ''h3'' ''accordion__title'' = Some h
          \<and> contains ''high degree of caution'' (lower (strip (get_text h)))
          \<and> contains ''do not travel'' (lower (strip (get_text h))))"
  shows "fst (get_advisory_level w u) = Some 4
       \<and> (\<forall>s. class_level s = first_match class_markers s)
       \<and> (\<forall>s. title_level s = first_match title_markers s)"
proof -
  have "extract_level sp = Some 4"
    using assms(2)
    by (auto simp: extract_level_def title_fallback_def class_level_def title_level_def)
  with assms(1) show ?thesis
    by (simp add: level_fetched class_level_first_match title_level_first_match)
qed

theorem highest_priority_marker_wins_witness:
  "fst (get_advisory_level
          (serving [div_of [''accordion_travel'', ''high-degree-of-caution'', ''do-not-travel'']])
          ''https://www.ireland.ie/en/dfa/overseas-travel/advice/libya/'') = Some 4
   \<and> fst (get_advisory_level
          (serving [h3_of ''High degree of caution; in the north: Do not travel''])
          ''https://www.ireland.ie/en/dfa/overseas-travel/advice/mali/'') = Some 4"
proof
  let ?d = "div_of [''accordion_travel'', ''high-degree-of-caution'', ''do-not-travel'']"
  have "find_tag [?d] ''div'' ''accordion_travel'' = Some ?d
          \<and> contains ''high-degree-of-caution'' (lower (join '' '' (classes ?d)))
          \<and> contains ''do-not-travel'' (lower (join '' '' (classes ?d)))"
    by (simp add: eval_defs)
  with highest_priority_marker_wins [OF fetch_serving, of "[?d]" ?d]
  show "fst (get_advisory_level (serving [?d])
          ''https://www.ireland.ie/en/dfa/overseas-travel/advice/libya/'') = Some 4"
    by blast
next
  let ?h = "h3_of ''High degree of caution; in the north: Do not travel''"
  have "find_tag [?h] ''div'' ''accordion_travel'' = None
          \<and> find_tag [?h] ''h3'' ''accordion__title'' = Some ?h
          \<and> contains ''high degree of caution'' (lower (strip (get_text ?h)))
          \<and> contains ''do not travel'' (lower (strip (get_text ?h)))"
    by (simp add: eval_defs)
  with highest_priority_marker_wins [OF fetch_serving, of "[?h]" _ ?h]
  show "fst (get_advisory_level (serving [?h])
          ''https://www.ireland.ie/en/dfa/overseas-travel/advice/mali/'') = Some 4"
    by blast
qed

theorem highest_priority_counterexample:
  "contains ''high degree of caution'' (lower (get_text (h3_of ''High degree of caution; border: do not travel'')))
   \<and> contains ''do not travel'' (lower (get_text (h3_of ''High degree of caution; border: do not travel'')))
   \<and> fst (get_advisory_level
            (serving [div_of [''accordion_travel'', ''avoid-non-essential-travel''],
                      h3_of ''High degree of caution; border: do not travel''])
            ''https://www.ireland.ie/en/dfa/overseas-travel/advice/mali/'') = Some 3
   \<and> contains ''high degree of caution''
        (lower (join '' '' (classes (div_of [''accordion_travel'', ''high'', ''degree'', ''of'', ''caution'', ''do'', ''not'', ''travel'']))))
   \<and> contains ''do not travel''
        (lower (join '' '' (classes (div_of [''accordion_travel'', ''high'', ''degree'', ''of'', ''caution'', ''do'', ''not'', ''travel'']))))
   \<and> fst (get_advisory_level
            (serving [div_of [''accordion_travel'', ''high'', ''degree'', ''of'', ''caution'', ''do'', ''not'', ''travel'']])
            ''https://www.ireland.ie/en/dfa/overseas-travel/advice/mali/'') = None"
  by (simp add: eval_defs)

section \<open>The listing parser\<close>

lemma collect_links_filter:
  "collect_links hrs acc =
     acc @ map country_link_of
             (filter (\<lambda>hr. contains ''/advice/'' hr \<and> 5 \<le> count hr CHR ''/''
                           \<and> (\<forall>x \<in> set exclusion_keywords. \<not> contains x (lower hr))) hrs)"
  by (induction hrs arbitrary: acc) (simp_all add: list_ex_iff)

lemma set_drop_duplicates: "set (drop_duplicates seen xs) = set xs - set seen"
  by (induction seen xs rule: drop_duplicates.induct) auto

lemma distinct_drop_duplicates: "distinct (drop_duplicates seen xs)"
  by (induction seen xs rule: drop_duplicates.induct) (auto simp: set_drop_duplicates)

lemma urls_fetched:
  "fetch w base_url = Inr sp \<Longrightarrow>
   fst (get_country_urls w) = Some (drop_duplicates [] (collect_links (find_all_a_href sp) []))"
  by (simp add: get_country_urls_def)

lemma keyword_in_lower:
  assumes "hr = pre @ mid @ post" "lower mid = x"
  shows "contains x (lower hr)"
proof -
  have "lower hr = lower pre @ x @ lower post"
    using assms by (simp add: lower_append)
  then show ?thesis unfolding contains_iff by blast
qed

lemmas listing_defs = get_country_urls_def fetch_def raise_for_status_def serving_def a_of_def
  find_all_a_href_def List.map_filter_def country_link_of_def exclusion_keywords_def count_def
  startswith_def rstrip_def replace_def title_def is_cased_def upper_char_def
  lower_def lower_char_def ascii_uppercase_def ascii_lowercase_def path_segments_def base_url_def

text \<open>
  C4 (as amended). The listing keeps an anchor if and only if its href contains
  \<open>/advice/\<close>, has at least five \<open>/\<close> characters, and its lower-cased form contains none
  of \<open>covid\<close>, \<open>index\<close>, \<open>search\<close>, \<open>about\<close>: the links returned are exactly the entries
  built from such hrefs, each once. So an href with fewer than five \<open>/\<close> characters, or
  with an exclusion keyword, contributes no link.
\<close>

theorem listing_keeps_iff:
  assumes "fetch w base_url = Inr sp"
  shows "\<exists>links. fst (get_country_urls w) = Some links \<and> distinct links
           \<and> (\<forall>l. l \<in> set links \<longleftrightarrow>
                  (\<exists>hr \<in> set (find_all_a_href sp).
                      l = country_link_of hr
                      \<and> contains ''/advice/'' hr
                      \<and> 5 \<le> count hr CHR ''/''
                      \<and> (\<forall>x \<in> set [''covid'', ''index'', ''search'', ''about''].
                            \<not> contains x (lower hr))))"
proof -
  let ?links = "drop_duplicates [] (collect_links (find_all_a_href sp) [])"
  have "fst (get_country_urls w) = Some ?links"
    using assms by (rule urls_fetched)
  moreover have "distinct ?links"
    by (rule distinct_drop_duplicates)
  moreover have "\<forall>l. l \<in> set ?links \<longleftrightarrow>
                  (\<exists>hr \<in> set (find_all_a_href sp).
                      l = country_link_of hr
                      \<and> contains ''/advice/'' hr
                      \<and> 5 \<le> count hr CHR ''/''
                      \<and> (\<forall>x \<in> set [''covid'', ''index'', ''search'', ''about''].
                            \<not> contains x (lower hr)))"
    unfolding set_drop_duplicates collect_links_filter exclusion_keywords_def
    by auto
  ultimately show ?thesis by blast
qed

theorem listing_keeps_iff_witness:
  "\<exists>links. fst (get_country_urls
                  (serving [a_of ''/en/dfa/overseas-travel/advice/france/'',
                            a_of ''/en/dfa/advice/'',
                            a_of ''/en/dfa/overseas-travel/advice/covid-19/''])) = Some links
        \<and> set links = {\<lparr>country = ''France'',
                         url = ''https://www.ireland.ie/en/dfa/overseas-travel/advice/france/''\<rparr>}"
proof -
  let ?sp = "[a_of ''/en/dfa/overseas-travel/advice/france/'',
              a_of ''/en/dfa/advice/'',
              a_of ''/en/dfa/overseas-travel/advice/covid-19/'']"
  let ?fr = "\<lparr>country = ''France'',
              url = ''https://www.ireland.ie/en/dfa/overseas-travel/advice/france/''\<rparr>"
  have hrefs: "find_all_a_href ?sp = [''/en/dfa/overseas-travel/advice/france/'',
      ''/en/dfa/advice/'', ''/en/dfa/overseas-travel/advice/covid-19/'']"
    by (simp add: listing_defs)
  have fr: "country_link_of ''/en/dfa/overseas-travel/advice/france/'' = ?fr"
    by (simp add: listing_defs)
  have k1: "contains ''/advice/'' ''/en/dfa/overseas-travel/advice/france/''
      \<and> 5 \<le> count ''/en/dfa/overseas-travel/advice/france/'' CHR ''/''
      \<and> (\<forall>x \<in> set [''covid'', ''index'', ''search'', ''about''].
             \<not> contains x (lower ''/en/dfa/overseas-travel/advice/france/''))"
    by (simp add: listing_defs)
  have k2: "\<not> 5 \<le> count ''/en/dfa/advice/'' CHR ''/''"
    by (simp add: listing_defs)
  have k3: "contains ''covid'' (lower ''/en/dfa/overseas-travel/advice/covid-19/'')"
    by (simp add: listing_defs)
  from listing_keeps_iff [OF fetch_serving, of ?sp]
  obtain links where
    res: "fst (get_country_urls (serving ?sp)) = Some links"
    and mem: "\<And>l. l \<in> set links \<longleftrightarrow>
                  (\<exists>hr \<in> set (find_all_a_href ?sp).
                      l = country_link_of hr
                      \<and> contains ''/advice/'' hr
                      \<and> 5 \<le> count hr CHR ''/''
                      \<and> (\<forall>x \<in> set [''covid'', ''index'', ''search'', ''about''].
                            \<not> contains x (lower hr)))"
    by blast
  have "set links = {?fr}"
  proof (rule set_eqI)
    fix l
    show "l \<in> set links \<longleftrightarrow> l \<in> {?fr}"
      unfolding mem hrefs using fr k1 k2 k3 by auto
  qed
  with res show ?thesis by blast
qed

text \<open>
  C4 as written fails at the href \<open>dfa/overseas-travel/advice/europe/france\<close>: it contains
  \<open>/advice/\<close>, has five path segments and no exclusion keyword, and is not kept, because it
  has only four \<open>/\<close> characters.
\<close>

theorem listing_keeps_counterexample:
  "contains ''/advice/'' ''dfa/overseas-travel/advice/europe/france''
   \<and> path_segments ''dfa/overseas-travel/advice/europe/france''
       = [''dfa'', ''overseas-travel'', ''advice'', ''europe'', ''france'']
   \<and> \<not> list_ex (\<lambda>x. contains x (lower ''dfa/overseas-travel/advice/europe/france''))
          [''covid'', ''index'', ''search'', ''about'']
   \<and> fst (get_country_urls (serving [a_of ''dfa/overseas-travel/advice/europe/france''])) = Some []"
  by (simp add: listing_defs)

text \<open>
  C10. An anchor whose href contains \<open>covid\<close>, \<open>index\<close>, \<open>search\<close> or \<open>about\<close> in any
  mixture of letter cases is excluded: the listing is the one of the same page without
  that anchor.
\<close>

theorem exclusion_keyword_any_case:
  assumes "fetch w base_url = Inr sp" and "fetch w' base_url = Inr sp'"
    and "find_all_a_href sp = before @ hr # after"
    and "find_all_a_href sp' = before @ after"
    and "hr = pre @ mid @ post"
    and "lower mid \<in> set [''covid'', ''index'', ''search'', ''about'']"
  shows "fst (get_country_urls w) = fst (get_country_urls w')"
proof -
  have "lower mid \<in> set exclusion_keywords"
    using assms(6) by (simp add: exclusion_keywords_def)
  moreover have "contains (lower mid) (lower hr)"
    using assms(5) by (rule keyword_in_lower) simp
  ultimately have "collect_links (before @ hr # after) [] = collect_links (before @ after) []"
    unfolding collect_links_filter by auto
  then show ?thesis
    by (simp add: urls_fetched [OF assms(1)] urls_fetched [OF assms(2)] assms(3,4))
qed

theorem exclusion_keyword_any_case_witness:
  "fst (get_country_urls
          (serving [a_of ''/en/dfa/overseas-travel/advice/france/'',
                    a_of ''/en/dfa/overseas-travel/advice/CoViD-19/'',
                    a_of ''/en/dfa/overseas-travel/advice/spain/'']))
   = fst (get_country_urls
          (serving [a_of ''/en/dfa/overseas-travel/advice/france/'',
                    a_of ''/en/dfa/overseas-travel/advice/spain/'']))"
proof (rule exclusion_keyword_any_case
    [where before = "[''/en/dfa/overseas-travel/advice/france/'']"
       and after = "[''/en/dfa/overseas-travel/advice/spain/'']"
       and hr = "''/en/dfa/overseas-travel/advice/CoViD-19/''"
       and pre = "''/en/dfa/overseas-travel/advice/''" and mid = "''CoViD''" and post = "''-19/''"])
  show "fetch (serving [a_of ''/en/dfa/overseas-travel/advice/france/'',
                    a_of ''/en/dfa/overseas-travel/advice/CoViD-19/'',
                    a_of ''/en/dfa/overseas-travel/advice/spain/'']) base_url = Inr [a_of ''/en/dfa/overseas-travel/advice/france/'',
                    a_of ''/en/dfa/overseas-travel/advice/CoViD-19/'',
                    a_of ''/en/dfa/overseas-travel/advice/spain/'']"
    by (rule fetch_serving)
  show "fetch (serving [a_of ''/en/dfa/overseas-travel/advice/france/'',
                    a_of ''/en/dfa/overseas-travel/advice/spain/'']) base_url = Inr [a_of ''/en/dfa/overseas-travel/advice/france/'',
                    a_of ''/en/dfa/overseas-travel/advice/spain/'']"
    by (rule fetch_serving)
qed (simp_all add: listing_defs)

section \<open>The name normalizer\<close>

lemma canonical_names_fixed: "\<forall>v \<in> snd ` set mapping. standardize_country_name v = v"
  by (simp add: mapping_def standardize_country_name_def)

text \<open>
  C6. Normalizing twice gives what normalizing once gives. In particular a canonical name,
  one that stands on the right of the table, is returned unchanged.
\<close>

theorem standardize_country_name_idempotent:
  "standardize_country_name (standardize_country_name n) = standardize_country_name n
   \<and> (v \<in> snd ` set mapping \<longrightarrow> standardize_country_name v = v)"
proof
  show "standardize_country_name (standardize_country_name n) = standardize_country_name n"
  proof (cases "map_of mapping n")
    case None
    then show ?thesis by (simp add: standardize_country_name_def)
  next
    case (Some c)
    then have "(n, c) \<in> set mapping" by (rule map_of_SomeD)
    then have "c \<in> snd ` set mapping" by force
    then have "standardize_country_name c = c" using canonical_names_fixed by blast
    moreover have "standardize_country_name n = c"
      using Some by (simp add: standardize_country_name_def)
    ultimately show ?thesis by simp
  qed
next
  show "v \<in> snd ` set mapping \<longrightarrow> standardize_country_name v = v"
    using canonical_names_fixed by blast
qed

theorem standardize_country_name_idempotent_witness:
  "standardize_country_name ''Uae'' = ''United Arab Emirates''
   \<and> standardize_country_name (standardize_country_name ''Uae'') = ''United Arab Emirates''
   \<and> ''United Arab Emirates'' \<in> snd ` set mapping
   \<and> standardize_country_name ''United Arab Emirates'' = ''United Arab Emirates''"
proof -
  have a: "standardize_country_name ''Uae'' = ''United Arab Emirates''"
    by (simp add: mapping_def standardize_country_name_def)
  have b: "''United Arab Emirates'' \<in> snd ` set mapping"
    by (simp add: mapping_def)
  from standardize_country_name_idempotent [of "''Uae''" "''United Arab Emirates''"] a b
  show ?thesis by simp
qed

section \<open>The scraping loop and the assembled dataset\<close>

lemma class_level_range: "class_level s \<in> {None, Some 1, Some 2, Some 3, Some 4}"
  by (simp add: class_level_def)

lemma title_level_range: "title_level s \<in> {None, Some 1, Some 2, Some 3, Some 4}"
  by (simp add: title_level_def)

lemma extract_level_range: "extract_level sp \<in> {None, Some 1, Some 2, Some 3, Some 4}"
proof -
  have t: "title_fallback sp \<in> {None, Some 1, Some 2, Some 3, Some 4}"
    using title_level_range by (simp add: title_fallback_def split: option.splits)
  show ?thesis
  proof (cases "find_tag sp ''div'' ''accordion_travel''")
    case None
    with t show ?thesis by (simp add: extract_level_def)
  next
    case (Some d)
    show ?thesis
    proof (cases "class_level (lower (join '' '' (classes d)))")
      case None
      with Some t show ?thesis by (simp add: extract_level_def)
    next
      case (Some l)
      with class_level_range [of "lower (join '' '' (classes d))"] \<open>find_tag sp ''div'' ''accordion_travel'' = Some d\<close>
      show ?thesis by (simp add: extract_level_def)
    qed
  qed
qed

lemma get_advisory_level_range:
  "fst (get_advisory_level w u) \<in> {None, Some 1, Some 2, Some 3, Some 4}"
  using extract_level_range by (simp add: get_advisory_level_def split: sum.splits)

lemma scrape_levels_Cons:
  "scrape_levels w (row # rows) =
     (fst (get_advisory_level w (url row)) # fst (scrape_levels w rows),
      Print (Progress (country row)) # snd (get_advisory_level w (url row))
        @ Print (case fst (get_advisory_level w (url row)) of
                   Some l \<Rightarrow> if l \<noteq> 0 then Level l else UnableToDetermine
                 | None \<Rightarrow> UnableToDetermine)
        # snd (scrape_levels w rows))"
  by (simp add: Let_def case_prod_beta)

lemma scrape_levels_range:
  "l \<in> set (fst (scrape_levels w rows)) \<Longrightarrow> l \<in> {None, Some 1, Some 2, Some 3, Some 4}"
proof (induction rows)
  case Nil
  then show ?case by simp
next
  case (Cons row rows)
  from Cons.prems have "l = fst (get_advisory_level w (url row)) \<or> l \<in> set (fst (scrape_levels w rows))"
    unfolding scrape_levels_Cons by simp
  then show ?case
  proof
    assume "l = fst (get_advisory_level w (url row))"
    then show ?thesis using get_advisory_level_range [of w "url row"] by simp
  next
    assume "l \<in> set (fst (scrape_levels w rows))"
    then show ?thesis by (rule Cons.IH)
  qed
qed

lemma scrape_levels_append:
  "scrape_levels w (xs @ ys) =
     (fst (scrape_levels w xs) @ fst (scrape_levels w ys),
      snd (scrape_levels w xs) @ snd (scrape_levels w ys))"
proof (induction xs)
  case Nil
  show ?case by simp
next
  case (Cons x xs)
  have "scrape_levels w ((x # xs) @ ys) = scrape_levels w (x # (xs @ ys))" by simp
  also have "\<dots> = (fst (scrape_levels w (x # xs)) @ fst (scrape_levels w ys),
      snd (scrape_levels w (x # xs)) @ snd (scrape_levels w ys))"
    unfolding scrape_levels_Cons [of w x "xs @ ys"] scrape_levels_Cons [of w x xs] Cons.IH
    by simp
  finally show ?case .
qed

lemma no_csv_in_listing: "ToCsv rows \<notin> set (snd (get_country_urls w))"
  by (simp add: get_country_urls_def split: sum.splits)

lemma no_csv_in_level: "ToCsv rows \<notin> set (snd (get_advisory_level w u))"
  by (simp add: get_advisory_level_def split: sum.splits)

lemma no_csv_in_loop: "ToCsv rows \<notin> set (snd (scrape_levels w links))"
proof (induction links)
  case Nil
  show ?case by simp
next
  case (Cons a links)
  then show ?case
    unfolding scrape_levels_Cons by (simp add: no_csv_in_level)
qed

lemma assemble_row:
  assumes "r \<in> set (assemble links levels)"
  shows "\<exists>l. advisory_level r = Some l \<and> Some l \<in> set levels \<and> advisory_label r = level_labels l"
proof -
  from assms obtain a where a: "a \<in> set (map2 add_columns links levels)"
      "advisory_level a \<noteq> None" "r = add_label a"
    by (auto simp: assemble_def)
  then obtain link lv where "(link, lv) \<in> set (zip links levels)" "a = add_columns link lv"
    by auto
  then have "lv \<in> set levels" "advisory_level a = lv"
    by (auto simp: add_columns_def dest: set_zip_rightD)
  with a show ?thesis
    by (auto simp: add_label_def)
qed

lemma main_aborted:
  "fst (get_country_urls w) = None \<or> fst (get_country_urls w) = Some [] \<Longrightarrow>
   main w = [Print Banner, Print FetchingCountryList] @ snd (get_country_urls w)
              @ [Print UnableToScrapeCountryList]"
  by (auto simp: main_def case_prod_beta)

lemma main_scraped:
  "fst (get_country_urls w) = Some links \<Longrightarrow> links \<noteq> [] \<Longrightarrow>
   main w = [Print Banner, Print FetchingCountryList] @ snd (get_country_urls w)
              @ [Print (FoundCountries (length links)), Print ScrapingAdvisoryLevels]
              @ snd (scrape_levels w links)
              @ [ToCsv (assemble links (fst (scrape_levels w links))),
                 Print (SuccessfullyScraped (length (assemble links (fst (scrape_levels w links)))))]"
  by (simp add: main_def case_prod_beta Let_def)

lemma main_csv:
  assumes "ToCsv rows \<in> set (main w)"
  shows "\<exists>links. fst (get_country_urls w) = Some links
           \<and> rows = assemble links (fst (scrape_levels w links))"
proof (cases "fst (get_country_urls w)")
  case None
  with assms show ?thesis
    by (simp add: main_aborted no_csv_in_listing)
next
  case (Some links)
  show ?thesis
  proof (cases "links = []")
    case True
    with Some assms show ?thesis
      by (simp add: main_aborted no_csv_in_listing)
  next
    case False
    with Some assms show ?thesis
      by (simp add: main_scraped no_csv_in_listing no_csv_in_loop)
  qed
qed

text \<open>
  C5. Every row of the dataset that \<open>main\<close> writes has a level among 1, 2, 3, 4 and the
  label of that level; no row has an absent level.
\<close>

theorem no_row_without_level:
  assumes "ToCsv rows \<in> set (main w)" and "r \<in> set rows"
  shows "(advisory_level r = Some 1 \<and> advisory_label r = Some ''Normal Precautions'')
       \<or> (advisory_level r = Some 2 \<and> advisory_label r = Some ''High Degree of Caution'')
       \<or> (advisory_level r = Some 3 \<and> advisory_label r = Some ''Avoid Unnecessary Travel'')
       \<or> (advisory_level r = Some 4 \<and> advisory_label r = Some ''Do Not Travel'')"
proof -
  from main_csv [OF assms(1)] obtain links where
    "rows = assemble links (fst (scrape_levels w links))" by blast
  with assms(2) obtain l where l: "advisory_level r = Some l"
      "Some l \<in> set (fst (scrape_levels w links))" "advisory_label r = level_labels l"
    using assemble_row by blast
  from scrape_levels_range [OF l(2)] have "l = 1 \<or> l = 2 \<or> l = 3 \<or> l = 4" by simp
  then show ?thesis
    using l(1,3) by (auto simp: level_labels_def)
qed

theorem no_row_without_level_witness:
  "ToCsv [\<lparr>country = ''France'',
            url = ''https://www.ireland.ie/en/dfa/overseas-travel/advice/france/'',
            advisory_level = Some 1, country_standardized = ''France'',
            advisory_label = Some ''Normal Precautions''\<rparr>]
     \<in> set (main (serving_except ''https://www.ireland.ie/en/dfa/overseas-travel/advice/libya/''
                   (Exception ''timed out'')
                   [a_of ''/en/dfa/overseas-travel/advice/libya/'',
                    a_of ''/en/dfa/overseas-travel/advice/france/'',
                    div_of [''accordion_travel'', ''normal-precautions'']]))
   \<and> ((advisory_level 
          \<lparr>country = ''France'',
            url = ''https://www.ireland.ie/en/dfa/overseas-travel/advice/france/'',
            advisory_level = Some 1, country_standardized = ''France'',
            advisory_label = Some ''Normal Precautions''\<rparr> = Some 1 \<and> advisory_label 
          \<lparr>country = ''France'',
            url = ''https://www.ireland.ie/en/dfa/overseas-travel/advice/france/'',
            advisory_level = Some 1, country_standardized = ''France'',
            advisory_label = Some ''Normal Precautions''\<rparr> = Some ''Normal Precautions'')
       \<or> (advisory_level 
          \<lparr>country = ''France'',
            url = ''https://www.ireland.ie/en/dfa/overseas-travel/advice/france/'',
            advisory_level = Some 1, country_standardized = ''France'',
            advisory_label = Some ''Normal Precautions''\<rparr> = Some 2 \<and> advisory_label 
          \<lparr>country = ''France'',
            url = ''https://www.ireland.ie/en/dfa/overseas-travel/advice/france/'',
            advisory_level = Some 1, country_standardized = ''France'',
            advisory_label = Some ''Normal Precautions''\<rparr> = Some ''High Degree of Caution'')
       \<or> (advisory_level 
          \<lparr>country = ''France'',
            url = ''https://www.ireland.ie/en/dfa/overseas-travel/advice/france/'',
            advisory_level = Some 1, country_standardized = ''France'',
            advisory_label = Some ''Normal Precautions''\<rparr> = Some 3 \<and> advisory_label 
          \<lparr>country = ''France'',
            url = ''https://www.ireland.ie/en/dfa/overseas-travel/advice/france/'',
            advisory_level = Some 1, country_standardized = ''France'',
            advisory_label = Some ''Normal Precautions''\<rparr> = Some ''Avoid Unnecessary Travel'')
       \<or> (advisory_level 
          \<lparr>country = ''France'',
            url = ''https://www.ireland.ie/en/dfa/overseas-travel/advice/france/'',
            advisory_level = Some 1, country_standardized = ''France'',
            advisory_label = Some ''Normal Precautions''\<rparr> = Some 4 \<and> advisory_label 
          \<lparr>country = ''France'',
            url = ''https://www.ireland.ie/en/dfa/overseas-travel/advice/france/'',
            advisory_level = Some 1, country_standardized = ''France'',
            advisory_label = Some ''Normal Precautions''\<rparr> = Some ''Do Not Travel''))"
proof -
  have mem: "ToCsv [\<lparr>country = ''France'',
            url = ''https://www.ireland.ie/en/dfa/overseas-travel/advice/france/'',
            advisory_level = Some 1, country_standardized = ''France'',
            advisory_label = Some ''Normal Precautions''\<rparr>]
     \<in> set (main (serving_except ''https://www.ireland.ie/en/dfa/overseas-travel/advice/libya/''
                   (Exception ''timed out'')
                   [a_of ''/en/dfa/overseas-travel/advice/libya/'',
                    a_of ''/en/dfa/overseas-travel/advice/france/'',
                    div_of [''accordion_travel'', ''normal-precautions'']]))"
    by code_simp
  have "
      \<lparr>country = ''France'',
            url = ''https://www.ireland.ie/en/dfa/overseas-travel/advice/france/'',
            advisory_level = Some 1, country_standardized = ''France'',
            advisory_label = Some ''Normal Precautions''\<rparr> \<in> set [
      \<lparr>country = ''France'',
            url = ''https://www.ireland.ie/en/dfa/overseas-travel/advice/france/'',
            advisory_level = Some 1, country_standardized = ''France'',
            advisory_label = Some ''Normal Precautions''\<rparr>]"
    by simp
  from mem no_row_without_level [OF mem this] show ?thesis
    by (rule conjI)
qed

section \<open>Failures while scraping\<close>

lemma level_failed:
  "fetch w u = Inl e \<Longrightarrow> get_advisory_level w u = (None, [Get u, Print (Error e)])"
  by (simp add: get_advisory_level_def)

text \<open>
  C7. When fetching a country page fails (the request raises, the status is an error, or
  parsing raises), \<open>get_advisory_level\<close> returns \<open>None\<close> after printing the error, and the
  loop goes on: the levels are those of the rows before, \<open>None\<close> for this row, and those of
  the rows after, which are requested as without the failure.
\<close>

theorem page_failure_is_absent_level:
  assumes "fetch w (url row) = Inl e"
  shows "get_advisory_level w (url row) = (None, [Get (url row), Print (Error e)])
       \<and> fst (scrape_levels w (before @ row # after))
           = fst (scrape_levels w before) @ None # fst (scrape_levels w after)
       \<and> snd (scrape_levels w (before @ row # after))
           = snd (scrape_levels w before)
             @ [Print (Progress (country row)), Get (url row), Print (Error e),
                Print UnableToDetermine]
             @ snd (scrape_levels w after)"
  unfolding scrape_levels_append [of w before "row # after"] scrape_levels_Cons
    level_failed [OF assms]
  by simp

theorem page_failure_is_absent_level_witness:
  "fst (scrape_levels
          (serving_except ''https://www.ireland.ie/en/dfa/overseas-travel/advice/libya/''
             (Exception ''timed out'') [div_of [''accordion_travel'', ''normal-precautions'']])
          [\<lparr>country = ''France'', url = ''https://www.ireland.ie/en/dfa/overseas-travel/advice/france/''\<rparr>,
           \<lparr>country = ''Libya'', url = ''https://www.ireland.ie/en/dfa/overseas-travel/advice/libya/''\<rparr>,
           \<lparr>country = ''Spain'', url = ''https://www.ireland.ie/en/dfa/overseas-travel/advice/spain/''\<rparr>])
   = [Some 1, None, Some 1]"
proof -
  let ?w = "serving_except ''https://www.ireland.ie/en/dfa/overseas-travel/advice/libya/''
             (Exception ''timed out'') [div_of [''accordion_travel'', ''normal-precautions'']]"
  let ?fr = "\<lparr>country = ''France'', url = ''https://www.ireland.ie/en/dfa/overseas-travel/advice/france/''\<rparr>"
  let ?ly = "\<lparr>country = ''Libya'', url = ''https://www.ireland.ie/en/dfa/overseas-travel/advice/libya/''\<rparr>"
  let ?es = "\<lparr>country = ''Spain'', url = ''https://www.ireland.ie/en/dfa/overseas-travel/advice/spain/''\<rparr>"
  have f: "fetch ?w (url ?ly) = Inl (Exception ''timed out'')"
    by (simp add: fetch_def serving_except_def)
  have b: "fst (scrape_levels ?w [?fr]) = [Some 1]"
    by code_simp
  have a: "fst (scrape_levels ?w [?es]) = [Some 1]"
    by code_simp
  from page_failure_is_absent_level [OF f, of "[?fr]" "[?es]"]
  have "fst (scrape_levels ?w ([?fr] @ ?ly # [?es]))
           = fst (scrape_levels ?w [?fr]) @ None # fst (scrape_levels ?w [?es])"
    by blast
  then show ?thesis
    unfolding a b by simp
qed

text \<open>
  C8 (as amended). When fetching the listing fails, \<open>get_country_urls\<close> returns \<open>None\<close>,
  not an empty collection, after printing the error and the manual method; \<open>main\<close> then
  prints that it cannot scrape the list and ends: no country page is requested and
  nothing is written.
\<close>

theorem listing_failure_aborts:
  assumes "fetch w base_url = Inl e"
  shows "get_country_urls w
           = (None, [Get base_url, Print (ErrorFetchingCountryList e), Print ManualMethod])
       \<and> main w = [Print Banner, Print FetchingCountryList, Get base_url,
                   Print (ErrorFetchingCountryList e), Print ManualMethod,
                   Print UnableToScrapeCountryList]"
proof -
  have g: "get_country_urls w
           = (None, [Get base_url, Print (ErrorFetchingCountryList e), Print ManualMethod])"
    using assms by (simp add: get_country_urls_def)
  then have "fst (get_country_urls w) = None" by simp
  then have "main w = [Print Banner, Print FetchingCountryList] @ snd (get_country_urls w)
              @ [Print UnableToScrapeCountryList]"
    by (simp add: main_aborted)
  with g show ?thesis by simp
qed

theorem listing_failure_aborts_witness:
  "main (failing (Exception ''timed out''))
     = [Print Banner, Print FetchingCountryList, Get base_url,
        Print (ErrorFetchingCountryList (Exception ''timed out'')), Print ManualMethod,
        Print UnableToScrapeCountryList]"
proof -
  have "fetch (failing (Exception ''timed out'')) base_url = Inl (Exception ''timed out'')"
    by (simp add: fetch_def failing_def)
  from listing_failure_aborts [OF this] show ?thesis by blast
qed

theorem listing_failure_counterexample:
  "fst (get_country_urls (failing (Exception ''timed out''))) = None
   \<and> fst (get_country_urls (failing (Exception ''timed out''))) \<noteq> Some []"
  by (simp add: get_country_urls_def fetch_def failing_def)

section \<open>The exports of the map\<close>

text \<open>
  C9. When the figure is built and the PNG export raises, the run prints the warning and
  the note on \<open>kaleido\<close> and then attempts the HTML export, whose outcome is the run's.
\<close>

theorem png_failure_is_warning:
  assumes "read_csv env = Inr df" and "build_and_show env df = Inr fig"
    and "write_image env fig = Inl e"
  shows "snd (create_map env)
           = [ReadCsv, Print (LoadedData (length df)), Show,
              WriteImage, Print (CouldNotSavePng e), Print PngRequiresKaleido, WriteHtml]
             @ (case write_html env fig of Inr _ \<Rightarrow> [Print InteractiveMapSaved] | Inl _ \<Rightarrow> [])
       \<and> fst (create_map env) = write_html env fig"
  using assms by (simp add: create_map_def export_def split: sum.splits)

theorem png_failure_is_warning_witness:
  "create_map \<lparr>read_csv = Inr [''Usa,,4,United States,Do Not Travel''],
               build_and_show = (\<lambda>df. Inr (length df)),
               write_image = (\<lambda>fig. Inl (Exception ''kaleido is not installed'')),
               write_html = (\<lambda>fig. Inr ())\<rparr>
     = (Inr (), [ReadCsv, Print (LoadedData 1), Show, WriteImage,
                 Print (CouldNotSavePng (Exception ''kaleido is not installed'')),
                 Print PngRequiresKaleido, WriteHtml, Print InteractiveMapSaved])"
proof -
  let ?env = "\<lparr>read_csv = Inr [''Usa,,4,United States,Do Not Travel''],
               build_and_show = (\<lambda>df. Inr (length df)),
               write_image = (\<lambda>fig. Inl (Exception ''kaleido is not installed'')),
               write_html = (\<lambda>fig. Inr ())\<rparr>"
  have "read_csv ?env = Inr [''Usa,,4,United States,Do Not Travel'']"
    "build_and_show ?env [''Usa,,4,United States,Do Not Travel''] = Inr (1::nat)"
    "write_image ?env (1::nat) = Inl (Exception ''kaleido is not installed'')"
    by simp_all
  from png_failure_is_warning [OF this]
  show ?thesis by (simp add: prod_eq_iff)
qed

end
